theory Spec2Isabelle
  imports Complex_Main "HOL-Library.Extended_Nat"
begin

section \<open>Context values and Python truthiness\<close>

text \<open>
  The context of the app (\<^verbatim>\<open>cdk.json\<close>, \<^verbatim>\<open>-c key=value\<close>) is a dictionary from keys to
  JSON values, which Python sees as \<^verbatim>\<open>None\<close>, booleans, numbers, strings, lists and
  dictionaries. A float is kept as the real number it denotes: only its test against
  zero is ever used.
\<close>

datatype py_value =
    PNone
  | PBool bool
  | PInt int
  | PFloat real
  | PStr string
  | PList "py_value list"
  | PDict "(string \<times> py_value) list"

text \<open>Python's truth value testing, as used by \<^verbatim>\<open>x if c else y\<close> and \<^verbatim>\<open>a or b\<close>.\<close>

fun truthy :: "py_value \<Rightarrow> bool" where
  "truthy PNone = False"
| "truthy (PBool b) = b"
| "truthy (PInt i) = (i \<noteq> 0)"
| "truthy (PFloat r) = (r \<noteq> 0)"
| "truthy (PStr s) = (s \<noteq> [])"
| "truthy (PList xs) = (xs \<noteq> [])"
| "truthy (PDict kvs) = (kvs \<noteq> [])"

text \<open>\<^verbatim>\<open>a or b\<close>: the first operand when it is truthy, the second otherwise.\<close>

definition py_or :: "py_value \<Rightarrow> py_value \<Rightarrow> py_value" where
  "py_or a b = (if truthy a then a else b)"

type_synonym cdk_context = "string \<rightharpoonup> py_value"

text \<open>\<^verbatim>\<open>node.try_get_context(key)\<close>: the value stored under the key, \<^verbatim>\<open>None\<close> when absent.
  No stack of the app sets context of its own, so every lookup reaches the app's context.\<close>

definition try_get_context :: "cdk_context \<Rightarrow> string \<Rightarrow> py_value" where
  "try_get_context ctx key = (case ctx key of None \<Rightarrow> PNone | Some v \<Rightarrow> v)"

section \<open>Strings with deploy-time references\<close>

text \<open>
  Attributes such as \<^verbatim>\<open>self.region\<close>, \<^verbatim>\<open>table.table_name\<close> or
  \<^verbatim>\<open>alb.load_balancer_dns_name\<close> are references resolved by the provisioning engine.
  An f-string over them is a sequence of literal pieces and references.
\<close>

datatype attr_ref =
    StackRegion
  | StackAccount
  | TableArnOf string
  | TableNameOf string
  | LoadBalancerDnsNameOf string

datatype frag = Lit string | Ref attr_ref

type_synonym tstring = "frag list"

text \<open>\<^verbatim>\<open>cdk.Environment(account=..., region=...)\<close>, holding the context values as given.\<close>

record environment =
  account :: py_value
  region :: py_value

record cfn_output =
  output_id :: string
  output_value :: tstring
  export_name :: "string option"

section \<open>The data stack (\<^verbatim>\<open>data_stack.py\<close>)\<close>

datatype removal_policy = RETAIN | DESTROY

datatype attribute_type = STRING | NUMBER | BINARY

datatype billing_mode = PAY_PER_REQUEST | PROVISIONED

record attribute =
  attribute_name :: string
  attribute_type :: attribute_type

record table =
  table_id :: string
  table_name :: string
  partition_key :: attribute
  sort_key :: "attribute option"
  billing_mode :: billing_mode
  removal_policy :: removal_policy

record data_stack =
  ds_id :: string
  ds_env :: environment
  ds_table :: table
  ds_outputs :: "cfn_output list"

text \<open>\<^verbatim>\<open>DataStack.__init__(scope, construct_id, env=env)\<close>; the scope contributes the
  context. The stack name is the construct id.\<close>

definition DataStack :: "cdk_context \<Rightarrow> string \<Rightarrow> environment \<Rightarrow> data_stack" where
  "DataStack ctx construct_id env =
     (let tbl = \<lparr> table_id = ''WordBashGamesTable'',
                  table_name = ''wordbash_games'',
                  partition_key = \<lparr> attribute_name = ''game_id'', attribute_type = STRING \<rparr>,
                  sort_key = None,
                  billing_mode = PAY_PER_REQUEST,
                  removal_policy =
                    (if truthy (try_get_context ctx ''keep_data'') then RETAIN else DESTROY) \<rparr>
      in \<lparr> ds_id = construct_id,
           ds_env = env,
           ds_table = tbl,
           ds_outputs =
             [ \<lparr> output_id = ''TableArn'',
                 output_value = [Ref (TableArnOf (table_id tbl))],
                 export_name = Some (construct_id @ ''-TableArn'') \<rparr>,
               \<lparr> output_id = ''TableName'',
                 output_value = [Ref (TableNameOf (table_id tbl))],
                 export_name = Some (construct_id @ ''-TableName'') \<rparr> ] \<rparr>)"

section \<open>The network stack (\<^verbatim>\<open>network_stack.py\<close>)\<close>

datatype subnet_type = PUBLIC | PRIVATE_WITH_EGRESS | PRIVATE_ISOLATED

record subnet_configuration =
  sc_name :: string
  sc_subnet_type :: subnet_type
  cidr_mask :: nat

record vpc =
  vpc_id :: string
  max_azs :: nat
  nat_gateways :: nat
  subnet_configuration :: "subnet_configuration list"

record network_stack =
  ns_id :: string
  ns_env :: environment
  ns_vpc :: vpc

text \<open>\<^verbatim>\<open>NetworkStack.__init__(scope, construct_id, env=env)\<close>. It reads no context.\<close>

definition NetworkStack :: "string \<Rightarrow> environment \<Rightarrow> network_stack" where
  "NetworkStack construct_id env =
     \<lparr> ns_id = construct_id,
       ns_env = env,
       ns_vpc =
         \<lparr> vpc_id = ''WordBashVpc'',
           max_azs = 2,
           nat_gateways = 1,
           subnet_configuration =
             [ \<lparr> sc_name = ''Public'', sc_subnet_type = PUBLIC, cidr_mask = 24 \<rparr>,
               \<lparr> sc_name = ''Private'', sc_subnet_type = PRIVATE_WITH_EGRESS, cidr_mask = 24 \<rparr> ] \<rparr> \<rparr>"

subsection \<open>What the network declaration stands for\<close>

datatype egress = ViaInternetGateway | ViaNatGateway string | NoEgress

record subnet =
  subnet_group :: string
  subnet_zone :: string
  subnet_kind :: subnet_type
  subnet_mask :: nat
  subnet_egress :: egress

text \<open>
  Modelled from the spec: the expansion of a network declaration into subnets and
  gateways is done by the provisioning library's \<^verbatim>\<open>ec2.Vpc\<close> construct, which is not part
  of the sources. Following the spec (``per availability zone, one public and one private
  subnet; one shared outbound gateway for private subnets''), the network spans the first
  \<^verbatim>\<open>max_azs\<close> zones the region offers, every subnet configuration yields one subnet in each
  of these zones, the NAT gateways sit in the first \<^verbatim>\<open>nat_gateways\<close> zones, and a private
  subnet with egress routes through the gateway of its own zone when there is one and
  through one of the others, in turn, when there is none.
\<close>

definition vpc_zones :: "vpc \<Rightarrow> string list \<Rightarrow> string list" where
  "vpc_zones v azs = take (max_azs v) azs"

definition nat_gateway_zones :: "vpc \<Rightarrow> string list \<Rightarrow> string list" where
  "nat_gateway_zones v azs = take (nat_gateways v) (vpc_zones v azs)"

definition egress_of :: "subnet_type \<Rightarrow> string list \<Rightarrow> nat \<Rightarrow> string \<Rightarrow> egress" where
  "egress_of t gws i z =
     (case t of
        PUBLIC \<Rightarrow> ViaInternetGateway
      | PRIVATE_ISOLATED \<Rightarrow> NoEgress
      | PRIVATE_WITH_EGRESS \<Rightarrow>
          (if gws = [] then NoEgress
           else if z \<in> set gws then ViaNatGateway z
           else ViaNatGateway (gws ! (i mod length gws))))"

definition vpc_subnets :: "vpc \<Rightarrow> string list \<Rightarrow> subnet list" where
  "vpc_subnets v azs =
     concat (map (\<lambda>cfg.
        map (\<lambda>(i, z).
               \<lparr> subnet_group = sc_name cfg,
                 subnet_zone = z,
                 subnet_kind = sc_subnet_type cfg,
                 subnet_mask = cidr_mask cfg,
                 subnet_egress = egress_of (sc_subnet_type cfg) (nat_gateway_zones v azs) i z \<rparr>)
            (List.enumerate 0 (vpc_zones v azs)))
        (subnet_configuration v))"

section \<open>The compute stack (\<^verbatim>\<open>compute_stack.py\<close>)\<close>

subsection \<open>The constructs it declares\<close>

datatype peer = AnyIpv4 | SecurityGroupPeer string

datatype port = Tcp nat

record ingress_rule =
  ingress_peer :: peer
  ingress_port :: port

record security_group =
  sg_id :: string
  sg_vpc :: vpc
  ingress_rules :: "ingress_rule list"

record cluster =
  cluster_id :: string
  cluster_vpc :: vpc

record load_balancer =
  alb_id :: string
  alb_vpc :: vpc
  internet_facing :: bool
  alb_security_group :: security_group

datatype platform = LINUX_AMD64 | LINUX_ARM64

record docker_image_asset =
  asset_id :: string
  directory :: py_value
  asset_platform :: platform

text \<open>A statement of a role's policy: the table's own read/write grant, whose actions the
  library chooses, or a statement written out in the source.\<close>

datatype policy_statement =
    ReadWriteData string
  | PolicyStatement (actions: "string list") (resources: "tstring list")

record role =
  role_id :: string
  assumed_by :: string
  role_policy :: "policy_statement list"

datatype retention_days = ONE_WEEK | TWO_WEEKS | ONE_MONTH

record log_group =
  log_group_id :: string
  log_group_name :: string
  retention :: retention_days

record aws_logs =
  stream_prefix :: string
  log_group :: log_group

text \<open>A container's environment variable is an f-string-like value or a context value.\<close>

datatype env_value = EnvStr tstring | EnvCtx py_value

record container =
  container_id :: string
  container_image :: docker_image_asset
  port_mappings :: "nat list"
  container_environment :: "(string \<times> env_value) list"
  logging :: aws_logs

record task_definition =
  task_def_id :: string
  memory_limit_mib :: nat
  cpu :: nat
  task_role :: role
  containers :: "container list"

record cpu_scaling =
  scaling_id :: string
  target_utilization_percent :: nat

record scalable_task_count =
  min_capacity :: nat
  max_capacity :: nat
  cpu_scalings :: "cpu_scaling list"

record fargate_service =
  service_id :: string
  service_cluster :: cluster
  task_definition :: task_definition
  desired_count :: nat
  security_groups :: "security_group list"
  auto_scaling :: "scalable_task_count option"
  attached_target_groups :: "string list"

datatype application_protocol = HTTP | HTTPS

datatype target_type = IP | INSTANCE | LAMBDA

record health_check =
  hc_path :: string
  healthy_threshold_count :: nat
  unhealthy_threshold_count :: nat
  hc_timeout_seconds :: nat
  hc_interval_seconds :: nat

record target_group =
  tg_id :: string
  tg_vpc :: vpc
  tg_port :: nat
  tg_protocol :: application_protocol
  tg_target_type :: target_type
  tg_health_check :: health_check
  property_overrides :: "string \<rightharpoonup> py_value"
  tg_targets :: "string list"

text \<open>Target groups and services are named by their construct ids where another
  construct refers to them.\<close>

datatype listener_action = Forward "string list"

datatype listener_condition = PathPatterns "string list"

record listener_rule =
  rule_id :: string
  priority :: nat
  conditions :: "listener_condition list"
  rule_action :: listener_action

record listener =
  listener_id :: string
  listener_port :: nat
  listener_protocol :: application_protocol
  default_action :: listener_action
  listener_rules :: "listener_rule list"

record string_parameter =
  param_id :: string
  parameter_name :: string
  string_value :: tstring
  description :: string

record compute_stack =
  cs_id :: string
  cs_env :: environment
  cs_cluster :: cluster
  cs_alb_sg :: security_group
  cs_alb :: load_balancer
  cs_web_image :: docker_image_asset
  cs_game_image :: docker_image_asset
  cs_service_sg :: security_group
  cs_web_service :: fargate_service
  cs_game_service :: fargate_service
  cs_web_tg :: target_group
  cs_game_tg :: target_group
  cs_http_listener :: listener
  cs_ws_param :: string_parameter
  cs_outputs :: "cfn_output list"

subsection \<open>The helper methods\<close>

definition add_ingress_rule :: "security_group \<Rightarrow> peer \<Rightarrow> port \<Rightarrow> security_group" where
  "add_ingress_rule sg p pt =
     sg\<lparr> ingress_rules := ingress_rules sg @ [\<lparr> ingress_peer = p, ingress_port = pt \<rparr>] \<rparr>"

definition create_alb_security_group :: "vpc \<Rightarrow> security_group" where
  "create_alb_security_group v =
     (let sg = \<lparr> sg_id = ''AlbSecurityGroup'', sg_vpc = v, ingress_rules = [] \<rparr>
      in add_ingress_rule sg AnyIpv4 (Tcp 80))"

definition create_service_security_group :: "vpc \<Rightarrow> security_group \<Rightarrow> security_group" where
  "create_service_security_group v alb_sg =
     (let sg = \<lparr> sg_id = ''ServiceSecurityGroup'', sg_vpc = v, ingress_rules = [] \<rparr>
      in add_ingress_rule sg (SecurityGroupPeer (sg_id alb_sg)) (Tcp 8080))"

text \<open>\<^verbatim>\<open>table.grant_read_write_data(role)\<close> and \<^verbatim>\<open>role.add_to_policy(statement)\<close>.\<close>

definition grant_read_write_data :: "table \<Rightarrow> role \<Rightarrow> role" where
  "grant_read_write_data tbl r = r\<lparr> role_policy := role_policy r @ [ReadWriteData (table_id tbl)] \<rparr>"

definition add_to_policy :: "role \<Rightarrow> policy_statement \<Rightarrow> role" where
  "add_to_policy r st = r\<lparr> role_policy := role_policy r @ [st] \<rparr>"

text \<open>\<^verbatim>\<open>service.auto_scale_task_count(max_capacity, min_capacity)\<close> followed by
  \<^verbatim>\<open>scaling.scale_on_cpu_utilization(id, target_utilization_percent)\<close>.\<close>

definition auto_scale_on_cpu :: "fargate_service \<Rightarrow> nat \<Rightarrow> nat \<Rightarrow> string \<Rightarrow> nat \<Rightarrow> fargate_service" where
  "auto_scale_on_cpu svc max_cap min_cap sid target =
     svc\<lparr> auto_scaling :=
            Some \<lparr> min_capacity = min_cap, max_capacity = max_cap,
                   cpu_scalings = [\<lparr> scaling_id = sid, target_utilization_percent = target \<rparr>] \<rparr> \<rparr>"

definition create_web_service ::
  "cdk_context \<Rightarrow> cluster \<Rightarrow> docker_image_asset \<Rightarrow> table \<Rightarrow> security_group \<Rightarrow> fargate_service" where
  "create_web_service ctx cl img tbl sg =
     (let task_role0 = \<lparr> role_id = ''WebTaskRole'', assumed_by = ''ecs-tasks.amazonaws.com'',
                         role_policy = [] \<rparr>;
          task_role1 = grant_read_write_data tbl task_role0;
          container =
            \<lparr> container_id = ''WebContainer'',
              container_image = img,
              port_mappings = [8080],
              container_environment =
                [ (''AWS_REGION'', EnvStr [Ref StackRegion]),
                  (''LOG_LEVEL'', EnvStr [Lit ''INFO'']),
                  (''DDB_TABLE_NAME'', EnvStr [Ref (TableNameOf (table_id tbl))]),
                  (''WS_ENDPOINT_PARAM'', EnvStr [Lit ''/wordbash/ws_endpoint'']),
                  (''API_BASE_URL'', EnvCtx (py_or (try_get_context ctx ''api_base_url'') (PStr ''''))) ],
              logging =
                \<lparr> stream_prefix = ''web'',
                  log_group = \<lparr> log_group_id = ''WebLogGroup'',
                                log_group_name = ''/aws/ecs/wordbash-web'',
                                retention = TWO_WEEKS \<rparr> \<rparr> \<rparr>;
          task_def = \<lparr> task_def_id = ''WebTaskDef'', memory_limit_mib = 1024, cpu = 512,
                       task_role = task_role1, containers = [container] \<rparr>;
          service = \<lparr> service_id = ''WebService'', service_cluster = cl,
                      task_definition = task_def, desired_count = 1,
                      security_groups = [sg], auto_scaling = None,
                      attached_target_groups = [] \<rparr>
      in auto_scale_on_cpu service 4 1 ''WebCpuScaling'' 50)"

definition create_game_service ::
  "cluster \<Rightarrow> docker_image_asset \<Rightarrow> table \<Rightarrow> security_group \<Rightarrow> fargate_service" where
  "create_game_service cl img tbl sg =
     (let task_role0 = \<lparr> role_id = ''GameTaskRole'', assumed_by = ''ecs-tasks.amazonaws.com'',
                         role_policy = [] \<rparr>;
          task_role1 = grant_read_write_data tbl task_role0;
          container =
            \<lparr> container_id = ''GameContainer'',
              container_image = img,
              port_mappings = [8080],
              container_environment =
                [ (''AWS_REGION'', EnvStr [Ref StackRegion]),
                  (''LOG_LEVEL'', EnvStr [Lit ''INFO'']),
                  (''DDB_TABLE_NAME'', EnvStr [Ref (TableNameOf (table_id tbl))]) ],
              logging =
                \<lparr> stream_prefix = ''game'',
                  log_group = \<lparr> log_group_id = ''GameLogGroup'',
                                log_group_name = ''/aws/ecs/wordbash-game'',
                                retention = TWO_WEEKS \<rparr> \<rparr> \<rparr>;
          task_def = \<lparr> task_def_id = ''GameTaskDef'', memory_limit_mib = 1024, cpu = 512,
                       task_role = task_role1, containers = [container] \<rparr>;
          service = \<lparr> service_id = ''GameService'', service_cluster = cl,
                      task_definition = task_def, desired_count = 1,
                      security_groups = [sg], auto_scaling = None,
                      attached_target_groups = [] \<rparr>
      in auto_scale_on_cpu service 4 1 ''GameCpuScaling'' 50)"

text \<open>\<^verbatim>\<open>service.attach_to_application_target_group(tg)\<close> changes both objects: the pair
  of the target group and the service afterwards.\<close>

definition attach_to_application_target_group ::
  "fargate_service \<Rightarrow> target_group \<Rightarrow> target_group \<times> fargate_service" where
  "attach_to_application_target_group svc tg =
     (tg\<lparr> tg_targets := tg_targets tg @ [service_id svc] \<rparr>,
      svc\<lparr> attached_target_groups := attached_target_groups svc @ [tg_id tg] \<rparr>)"

text \<open>\<^verbatim>\<open>cfn_tg.add_property_override(path, value)\<close> on the target group's low-level resource.\<close>

definition add_property_override :: "target_group \<Rightarrow> string \<Rightarrow> py_value \<Rightarrow> target_group" where
  "add_property_override tg path v = tg\<lparr> property_overrides := (property_overrides tg)(path \<mapsto> v) \<rparr>"

definition create_web_target_group :: "vpc \<Rightarrow> fargate_service \<Rightarrow> target_group \<times> fargate_service" where
  "create_web_target_group v service =
     (let tg = \<lparr> tg_id = ''WebTargetGroup'', tg_vpc = v, tg_port = 8080, tg_protocol = HTTP,
                 tg_target_type = IP,
                 tg_health_check =
                   \<lparr> hc_path = ''/healthz'', healthy_threshold_count = 2,
                     unhealthy_threshold_count = 3, hc_timeout_seconds = 10,
                     hc_interval_seconds = 30 \<rparr>,
                 property_overrides = Map.empty,
                 tg_targets = [] \<rparr>
      in attach_to_application_target_group service tg)"

definition create_game_target_group :: "vpc \<Rightarrow> fargate_service \<Rightarrow> target_group \<times> fargate_service" where
  "create_game_target_group v service =
     (let tg = \<lparr> tg_id = ''GameTargetGroup'', tg_vpc = v, tg_port = 8080, tg_protocol = HTTP,
                 tg_target_type = IP,
                 tg_health_check =
                   \<lparr> hc_path = ''/healthz'', healthy_threshold_count = 2,
                     unhealthy_threshold_count = 3, hc_timeout_seconds = 10,
                     hc_interval_seconds = 30 \<rparr>,
                 property_overrides = Map.empty,
                 tg_targets = [] \<rparr>;
          cfn_tg = add_property_override tg ''TargetGroupAttributes''
                     (PList
                       [ PDict [(''Key'', PStr ''deregistration_delay.timeout_seconds''),
                                (''Value'', PStr ''30'')],
                         PDict [(''Key'', PStr ''stickiness.enabled''), (''Value'', PStr ''true'')],
                         PDict [(''Key'', PStr ''stickiness.type''), (''Value'', PStr ''lb_cookie'')] ])
      in attach_to_application_target_group service cfn_tg)"

subsection \<open>The stack\<close>

text \<open>\<^verbatim>\<open>ComputeStack.__init__(scope, construct_id, vpc, table, env=env)\<close>, statement by
  statement; the scope contributes the context.\<close>

definition ComputeStack ::
  "cdk_context \<Rightarrow> string \<Rightarrow> vpc \<Rightarrow> table \<Rightarrow> environment \<Rightarrow> compute_stack" where
  "ComputeStack ctx construct_id v tbl env =
     (let web_path = py_or (try_get_context ctx ''web_image_path'') (PStr ''../web'');
          game_path = py_or (try_get_context ctx ''game_image_path'') (PStr ''../game'');
          cl = \<lparr> cluster_id = ''WordBashCluster'', cluster_vpc = v \<rparr>;
          alb_sg = create_alb_security_group v;
          alb = \<lparr> alb_id = ''WordBashALB'', alb_vpc = v, internet_facing = True,
                  alb_security_group = alb_sg \<rparr>;
          web_image = \<lparr> asset_id = ''WebImage'', directory = web_path,
                        asset_platform = LINUX_AMD64 \<rparr>;
          game_image = \<lparr> asset_id = ''GameImage'', directory = game_path,
                         asset_platform = LINUX_AMD64 \<rparr>;
          service_sg = create_service_security_group v alb_sg;
          web_service0 = create_web_service ctx cl web_image tbl service_sg;
          game_service0 = create_game_service cl game_image tbl service_sg;
          (web_tg, web_service1) = create_web_target_group v web_service0;
          (game_tg, game_service1) = create_game_target_group v game_service0;
          http_listener0 = \<lparr> listener_id = ''HttpListener'', listener_port = 80,
                             listener_protocol = HTTP,
                             default_action = Forward [tg_id web_tg],
                             listener_rules = [] \<rparr>;
          http_listener = http_listener0\<lparr> listener_rules := listener_rules http_listener0 @
                            [\<lparr> rule_id = ''WebSocketRule'', priority = 100,
                               conditions = [PathPatterns [''/ws/*'']],
                               rule_action = Forward [tg_id game_tg] \<rparr>] \<rparr>;
          ws_endpoint = [Lit ''ws://'', Ref (LoadBalancerDnsNameOf (alb_id alb)), Lit ''/ws''];
          ws_param_path = ''/wordbash/ws_endpoint'';
          ws_param = \<lparr> param_id = ''WsEndpointParam'', parameter_name = ws_param_path,
                       string_value = ws_endpoint,
                       description = ''WebSocket endpoint URL for WordBash game connections'' \<rparr>;
          web_task_def = task_definition web_service1;
          web_service = web_service1\<lparr> task_definition :=
                          web_task_def\<lparr> task_role :=
                            add_to_policy (task_role web_task_def)
                              (PolicyStatement [''ssm:GetParameter'']
                                 [[Lit ''arn:aws:ssm:'', Ref StackRegion, Lit '':'',
                                   Ref StackAccount, Lit '':parameter'', Lit ws_param_path]]) \<rparr> \<rparr>
      in \<lparr> cs_id = construct_id,
           cs_env = env,
           cs_cluster = cl,
           cs_alb_sg = alb_sg,
           cs_alb = alb,
           cs_web_image = web_image,
           cs_game_image = game_image,
           cs_service_sg = service_sg,
           cs_web_service = web_service,
           cs_game_service = game_service1,
           cs_web_tg = web_tg,
           cs_game_tg = game_tg,
           cs_http_listener = http_listener,
           cs_ws_param = ws_param,
           cs_outputs =
             [ \<lparr> output_id = ''AlbDnsName'',
                 output_value = [Ref (LoadBalancerDnsNameOf (alb_id alb))],
                 export_name = None \<rparr>,
               \<lparr> output_id = ''WebServiceUrl'',
                 output_value = [Lit ''http://'', Ref (LoadBalancerDnsNameOf (alb_id alb))],
                 export_name = None \<rparr>,
               \<lparr> output_id = ''WebSocketUrl'', output_value = ws_endpoint, export_name = None \<rparr>,
               \<lparr> output_id = ''DynamoDbTableName'',
                 output_value = [Ref (TableNameOf (table_id tbl))],
                 export_name = None \<rparr>,
               \<lparr> output_id = ''WsEndpointParamPath'', output_value = [Lit ws_param_path],
                 export_name = None \<rparr> ] \<rparr>)"

section \<open>The app (\<^verbatim>\<open>app.py\<close>)\<close>

datatype stack = Network network_stack | Data data_stack | Compute compute_stack

text \<open>What a run of the app hands to synthesis: the stacks added to the app, in order, and
  the dependencies declared between them (the dependent stack's id first).\<close>

record cloud_assembly =
  stacks :: "stack list"
  dependencies :: "(string \<times> string) list"

definition add_dependency :: "cloud_assembly \<Rightarrow> string \<Rightarrow> string \<Rightarrow> cloud_assembly" where
  "add_dependency a src tgt = a\<lparr> dependencies := dependencies a @ [(src, tgt)] \<rparr>"

definition app :: "cdk_context \<Rightarrow> cloud_assembly" where
  "app ctx =
     (let env = \<lparr> account = try_get_context ctx ''account'',
                  region = try_get_context ctx ''region'' \<rparr>;
          network_stack = NetworkStack ''WordBashNetworkStack'' env;
          data_stack = DataStack ctx ''WordBashDataStack'' env;
          compute_stack = ComputeStack ctx ''WordBashComputeStack''
                            (ns_vpc network_stack) (ds_table data_stack) env;
          a0 = \<lparr> stacks = [Network network_stack, Data data_stack, Compute compute_stack],
                 dependencies = [] \<rparr>;
          a1 = add_dependency a0 (cs_id compute_stack) (ns_id network_stack);
          a2 = add_dependency a1 (cs_id compute_stack) (ds_id data_stack)
      in a2)"

fun is_network :: "stack \<Rightarrow> bool" where
  "is_network (Network _) = True"
| "is_network _ = False"

fun is_data :: "stack \<Rightarrow> bool" where
  "is_data (Data _) = True"
| "is_data _ = False"

fun is_compute :: "stack \<Rightarrow> bool" where
  "is_compute (Compute _) = True"
| "is_compute _ = False"

fun stack_id :: "stack \<Rightarrow> string" where
  "stack_id (Network n) = ns_id n"
| "stack_id (Data d) = ds_id d"
| "stack_id (Compute c) = cs_id c"

section \<open>How the load balancer evaluates a listener\<close>

text \<open>
  Modelled from the spec: the load balancer is a managed service, not part of the
  sources. The spec says that ``all traffic defaults to the web group; traffic whose path
  matches a reserved prefix is forwarded instead to the game group, at a priority that
  must numerically precede the default action's implicit lowest priority''. So the
  default action is given a priority below every number, the matching rules and the
  default action compete, and the candidate of the numerically lowest priority wins. In
  a path pattern \<^verbatim>\<open>*\<close> stands for any run of characters and \<^verbatim>\<open>?\<close> for any single one.
\<close>

definition default_action_priority :: enat where
  "default_action_priority = \<infinity>"

fun glob_match :: "string \<Rightarrow> string \<Rightarrow> bool" where
  "glob_match [] [] = True"
| "glob_match [] (c # cs) = False"
| "glob_match (p # ps) [] = (p = CHR ''*'' \<and> glob_match ps [])"
| "glob_match (p # ps) (c # cs) =
     (if p = CHR ''*'' then glob_match ps (c # cs) \<or> glob_match (p # ps) cs
      else (p = CHR ''?'' \<or> p = c) \<and> glob_match ps cs)"

fun condition_holds :: "listener_condition \<Rightarrow> string \<Rightarrow> bool" where
  "condition_holds (PathPatterns pats) path = list_ex (\<lambda>p. glob_match p path) pats"

definition rule_matches :: "listener_rule \<Rightarrow> string \<Rightarrow> bool" where
  "rule_matches r path = list_all (\<lambda>c. condition_holds c path) (conditions r)"

definition listener_route :: "listener \<Rightarrow> string \<Rightarrow> listener_action" where
  "listener_route l path =
     snd (foldr (\<lambda>c best. if fst c < fst best then c else best)
            (map (\<lambda>r. (enat (priority r), rule_action r))
               (filter (\<lambda>r. rule_matches r path) (listener_rules l)))
            (default_action_priority, default_action l))"

text \<open>Whether a policy statement lets its role read the named parameter.\<close>

definition parameter_arn :: "string \<Rightarrow> tstring" where
  "parameter_arn name =
     [Lit ''arn:aws:ssm:'', Ref StackRegion, Lit '':'', Ref StackAccount, Lit '':parameter'', Lit name]"

fun grants_get_parameter :: "string \<Rightarrow> policy_statement \<Rightarrow> bool" where
  "grants_get_parameter name (ReadWriteData t) = False"
| "grants_get_parameter name (PolicyStatement acts res) =
     (''ssm:GetParameter'' \<in> set acts \<and> parameter_arn name \<in> set res)"

section \<open>The table's removal policy\<close>

text \<open>
  Claim C1. For every context, construct id and environment, the table's removal policy
  is RETAIN exactly when the context holds a truthy value under \<^verbatim>\<open>keep_data\<close>, and DESTROY
  otherwise; two runs whose contexts agree on \<^verbatim>\<open>keep_data\<close> choose the same policy,
  whatever else differs.
\<close>

theorem removal_policy_keep_data:
  "(removal_policy (ds_table (DataStack ctx cid env)) = RETAIN
      \<longleftrightarrow> (\<exists>v. ctx ''keep_data'' = Some v \<and> truthy v))
   \<and> (removal_policy (ds_table (DataStack ctx cid env)) = DESTROY
      \<longleftrightarrow> \<not> (\<exists>v. ctx ''keep_data'' = Some v \<and> truthy v))
   \<and> (ctx ''keep_data'' = ctx' ''keep_data'' \<longrightarrow>
        removal_policy (ds_table (DataStack ctx cid env))
          = removal_policy (ds_table (DataStack ctx' cid' env')))"
  by (auto simp: DataStack_def try_get_context_def Let_def split: option.splits)

theorem removal_policy_keep_data_witness:
  "removal_policy (ds_table (DataStack [''keep_data'' \<mapsto> PStr ''false'', ''region'' \<mapsto> PStr ''us-east-1'']
       ''WordBashDataStack'' \<lparr> account = PNone, region = PStr ''us-east-1'' \<rparr>)) = RETAIN
   \<and> removal_policy (ds_table (DataStack [''keep_data'' \<mapsto> PStr ''false'']
       ''D'' \<lparr> account = PNone, region = PNone \<rparr>)) = RETAIN"
  using removal_policy_keep_data
          [where ctx = "[''keep_data'' \<mapsto> PStr ''false'', ''region'' \<mapsto> PStr ''us-east-1'']"
             and cid = "''WordBashDataStack''"
             and env = "\<lparr> account = PNone, region = PStr ''us-east-1'' \<rparr>"
             and ctx' = "[''keep_data'' \<mapsto> PStr ''false'']"
             and cid' = "''D''"
             and env' = "\<lparr> account = PNone, region = PNone \<rparr>"]
  by auto

section \<open>The network topology\<close>

lemma two_distinct_zones:
  assumes "distinct azs" and "2 \<le> length azs"
  obtains a b rest where "azs = a # b # rest" and "a \<noteq> b"
proof -
  from assms(2) obtain a b rest where eq: "azs = a # b # rest"
    by (cases azs; cases "tl azs") auto
  with assms(1) have "a \<noteq> b" by auto
  with eq show thesis by (rule that)
qed

text \<open>
  Claim C8. The network is declared with at most two availability zones, one NAT gateway
  and two subnet configurations, a public one and a private one with egress, both with
  /24 blocks. In a region offering at least two distinct zones this gives two zones,
  each with exactly one public and exactly one private subnet, all of them /24, and a
  single NAT gateway through which every private subnet's egress passes.
\<close>

theorem network_topology:
  assumes "distinct azs" and "2 \<le> length azs"
  shows "max_azs (ns_vpc (NetworkStack cid env)) = 2
       \<and> nat_gateways (ns_vpc (NetworkStack cid env)) = 1
       \<and> map (\<lambda>c. (sc_subnet_type c, cidr_mask c))
            (subnet_configuration (ns_vpc (NetworkStack cid env)))
           = [(PUBLIC, 24), (PRIVATE_WITH_EGRESS, 24)]
       \<and> length (vpc_zones (ns_vpc (NetworkStack cid env)) azs) = 2
       \<and> (\<forall>z \<in> set (vpc_zones (ns_vpc (NetworkStack cid env)) azs).
            length (filter (\<lambda>s. subnet_zone s = z \<and> subnet_kind s = PUBLIC)
                      (vpc_subnets (ns_vpc (NetworkStack cid env)) azs)) = 1
          \<and> length (filter (\<lambda>s. subnet_zone s = z \<and> subnet_kind s = PRIVATE_WITH_EGRESS)
                      (vpc_subnets (ns_vpc (NetworkStack cid env)) azs)) = 1)
       \<and> length (vpc_subnets (ns_vpc (NetworkStack cid env)) azs) = 4
       \<and> (\<forall>s \<in> set (vpc_subnets (ns_vpc (NetworkStack cid env)) azs). subnet_mask s = 24)
       \<and> nat_gateway_zones (ns_vpc (NetworkStack cid env)) azs = [hd azs]
       \<and> (\<forall>s \<in> set (vpc_subnets (ns_vpc (NetworkStack cid env)) azs).
            subnet_kind s = PRIVATE_WITH_EGRESS \<longrightarrow> subnet_egress s = ViaNatGateway (hd azs))"
proof -
  from assms obtain a b rest where azs: "azs = a # b # rest" and ab: "a \<noteq> b"
    by (rule two_distinct_zones)
  have zones: "vpc_zones (ns_vpc (NetworkStack cid env)) azs = [a, b]"
    by (simp add: vpc_zones_def NetworkStack_def azs numeral_2_eq_2)
  have gws: "nat_gateway_zones (ns_vpc (NetworkStack cid env)) azs = [a]"
    by (simp add: nat_gateway_zones_def zones) (simp add: NetworkStack_def)
  have subnets: "vpc_subnets (ns_vpc (NetworkStack cid env)) azs =
      [ \<lparr> subnet_group = ''Public'', subnet_zone = a, subnet_kind = PUBLIC,
          subnet_mask = 24, subnet_egress = ViaInternetGateway \<rparr>,
        \<lparr> subnet_group = ''Public'', subnet_zone = b, subnet_kind = PUBLIC,
          subnet_mask = 24, subnet_egress = ViaInternetGateway \<rparr>,
        \<lparr> subnet_group = ''Private'', subnet_zone = a, subnet_kind = PRIVATE_WITH_EGRESS,
          subnet_mask = 24, subnet_egress = ViaNatGateway a \<rparr>,
        \<lparr> subnet_group = ''Private'', subnet_zone = b, subnet_kind = PRIVATE_WITH_EGRESS,
          subnet_mask = 24, subnet_egress = ViaNatGateway a \<rparr> ]"
    unfolding vpc_subnets_def zones gws
    using ab by (simp add: NetworkStack_def egress_of_def)
  show ?thesis
    unfolding zones gws subnets
    using ab by (simp add: NetworkStack_def azs)
qed

theorem network_topology_witness:
  "vpc_zones (ns_vpc (NetworkStack ''WordBashNetworkStack'' \<lparr> account = PNone, region = PNone \<rparr>))
       [''us-east-1a'', ''us-east-1b'', ''us-east-1c''] = [''us-east-1a'', ''us-east-1b'']
   \<and> length (vpc_subnets (ns_vpc (NetworkStack ''WordBashNetworkStack'' \<lparr> account = PNone, region = PNone \<rparr>))
       [''us-east-1a'', ''us-east-1b'', ''us-east-1c'']) = 4
   \<and> nat_gateway_zones (ns_vpc (NetworkStack ''WordBashNetworkStack'' \<lparr> account = PNone, region = PNone \<rparr>))
       [''us-east-1a'', ''us-east-1b'', ''us-east-1c''] = [''us-east-1a'']"
proof -
  have d: "distinct [''us-east-1a'', ''us-east-1b'', ''us-east-1c'']" by simp
  have l: "2 \<le> length [''us-east-1a'', ''us-east-1b'', ''us-east-1c'']" by simp
  show ?thesis
    using network_topology [OF d l, of "''WordBashNetworkStack''" "\<lparr> account = PNone, region = PNone \<rparr>"]
    by (simp add: vpc_zones_def NetworkStack_def numeral_2_eq_2)
qed

section \<open>The compute topology\<close>

lemmas compute_defs =
  ComputeStack_def create_alb_security_group_def create_service_security_group_def
  add_ingress_rule_def create_web_service_def create_game_service_def
  create_web_target_group_def create_game_target_group_def
  attach_to_application_target_group_def add_property_override_def
  grant_read_write_data_def add_to_policy_def auto_scale_on_cpu_def Let_def

lemma glob_match_star: "glob_match ''*'' s"
  by (induction s) simp_all

lemma glob_match_literal:
  "p \<noteq> CHR ''*'' \<Longrightarrow> p \<noteq> CHR ''?'' \<Longrightarrow>
     glob_match (p # ps) s \<longleftrightarrow> (\<exists>cs. s = p # cs \<and> glob_match ps cs)"
  by (cases s) auto

lemma glob_match_ws: "glob_match ''/ws/*'' path \<longleftrightarrow> take 4 path = ''/ws/''"
proof -
  have "glob_match ''/ws/*'' path \<longleftrightarrow> (\<exists>cs. path = ''/ws/'' @ cs)"
    by (auto simp add: glob_match_literal glob_match_star)
  also have "\<dots> \<longleftrightarrow> take 4 path = ''/ws/''"
  proof
    assume "\<exists>cs. path = ''/ws/'' @ cs"
    then show "take 4 path = ''/ws/''" by auto
  next
    assume "take 4 path = ''/ws/''"
    then have "path = ''/ws/'' @ drop 4 path"
      by (metis append_take_drop_id)
    then show "\<exists>cs. path = ''/ws/'' @ cs" ..
  qed
  finally show ?thesis .
qed

text \<open>
  Claim C2. The listener has exactly one rule: it matches the path pattern \<^verbatim>\<open>/ws/*\<close>,
  forwards to the game target group and has the explicit priority 100, which is
  numerically lower than the implicit lowest priority of the default action, the forward
  to the web target group. So a request is forwarded to the game target group exactly
  when its path starts with \<^verbatim>\<open>/ws/\<close>, and to the web target group otherwise.
\<close>

theorem websocket_rule_precedes_default:
  "listener_rules (cs_http_listener (ComputeStack ctx cid v tbl env))
     = [\<lparr> rule_id = ''WebSocketRule'', priority = 100,
          conditions = [PathPatterns [''/ws/*'']],
          rule_action = Forward [tg_id (cs_game_tg (ComputeStack ctx cid v tbl env))] \<rparr>]
   \<and> default_action (cs_http_listener (ComputeStack ctx cid v tbl env))
     = Forward [tg_id (cs_web_tg (ComputeStack ctx cid v tbl env))]
   \<and> tg_id (cs_game_tg (ComputeStack ctx cid v tbl env))
     \<noteq> tg_id (cs_web_tg (ComputeStack ctx cid v tbl env))
   \<and> list_all (\<lambda>r. enat (priority r) < default_action_priority)
        (listener_rules (cs_http_listener (ComputeStack ctx cid v tbl env)))
   \<and> listener_route (cs_http_listener (ComputeStack ctx cid v tbl env)) path
     = (if take 4 path = ''/ws/''
        then Forward [tg_id (cs_game_tg (ComputeStack ctx cid v tbl env))]
        else Forward [tg_id (cs_web_tg (ComputeStack ctx cid v tbl env))])"
proof -
  let ?l = "cs_http_listener (ComputeStack ctx cid v tbl env)"
  have rules: "listener_rules ?l
     = [\<lparr> rule_id = ''WebSocketRule'', priority = 100,
          conditions = [PathPatterns [''/ws/*'']],
          rule_action = Forward [tg_id (cs_game_tg (ComputeStack ctx cid v tbl env))] \<rparr>]"
    by (simp add: compute_defs)
  have dflt: "default_action ?l = Forward [tg_id (cs_web_tg (ComputeStack ctx cid v tbl env))]"
    by (simp add: compute_defs)
  have ids: "tg_id (cs_game_tg (ComputeStack ctx cid v tbl env))
     \<noteq> tg_id (cs_web_tg (ComputeStack ctx cid v tbl env))"
    by (simp add: compute_defs)
  have prio: "list_all (\<lambda>r. enat (priority r) < default_action_priority) (listener_rules ?l)"
    unfolding rules by (simp add: default_action_priority_def)
  have route: "listener_route ?l path
     = (if take 4 path = ''/ws/''
        then Forward [tg_id (cs_game_tg (ComputeStack ctx cid v tbl env))]
        else Forward [tg_id (cs_web_tg (ComputeStack ctx cid v tbl env))])"
    unfolding listener_route_def rules dflt
    by (simp add: rule_matches_def default_action_priority_def glob_match_ws)
  from rules dflt ids prio route show ?thesis by blast
qed

text \<open>
  Claim C3. The game target group carries exactly one property override, of
  \<^verbatim>\<open>TargetGroupAttributes\<close>, whose value is the three literal attributes
  \<^verbatim>\<open>deregistration_delay.timeout_seconds = "30"\<close>, \<^verbatim>\<open>stickiness.enabled = "true"\<close> and
  \<^verbatim>\<open>stickiness.type = "lb_cookie"\<close>; the web target group carries no property override.
\<close>

theorem target_group_attribute_overrides:
  "property_overrides (cs_game_tg (ComputeStack ctx cid v tbl env))
     = [''TargetGroupAttributes'' \<mapsto>
          PList [ PDict [(''Key'', PStr ''deregistration_delay.timeout_seconds''),
                         (''Value'', PStr ''30'')],
                  PDict [(''Key'', PStr ''stickiness.enabled''), (''Value'', PStr ''true'')],
                  PDict [(''Key'', PStr ''stickiness.type''), (''Value'', PStr ''lb_cookie'')] ]]
   \<and> dom (property_overrides (cs_game_tg (ComputeStack ctx cid v tbl env)))
     = {''TargetGroupAttributes''}
   \<and> property_overrides (cs_web_tg (ComputeStack ctx cid v tbl env)) = Map.empty"
  by (simp add: compute_defs)

text \<open>
  Claim C4. Whatever the context, the construct id, the network, the table and the
  environment, the web service and the game service both scale between 1 and 4 tasks on
  a CPU utilisation target of 50 percent.
\<close>

theorem scaling_bounds_fixed:
  "auto_scaling (cs_web_service (ComputeStack ctx cid v tbl env))
     = Some \<lparr> min_capacity = 1, max_capacity = 4,
              cpu_scalings = [\<lparr> scaling_id = ''WebCpuScaling'', target_utilization_percent = 50 \<rparr>] \<rparr>
   \<and> auto_scaling (cs_game_service (ComputeStack ctx cid v tbl env))
     = Some \<lparr> min_capacity = 1, max_capacity = 4,
              cpu_scalings = [\<lparr> scaling_id = ''GameCpuScaling'', target_utilization_percent = 50 \<rparr>] \<rparr>"
  by (simp add: compute_defs)

text \<open>
  Claim C5. The parameter \<^verbatim>\<open>/wordbash/ws_endpoint\<close> is published, the web service's task
  role holds exactly one statement granting \<^verbatim>\<open>ssm:GetParameter\<close> on it (next to the
  table's read/write grant), and the game service's task role holds the table's
  read/write grant only, so no statement of it grants reading the parameter.
\<close>

theorem ws_endpoint_grant_web_only:
  "parameter_name (cs_ws_param (ComputeStack ctx cid v tbl env)) = ''/wordbash/ws_endpoint''
   \<and> role_policy (task_role (task_definition (cs_web_service (ComputeStack ctx cid v tbl env))))
     = [ReadWriteData (table_id tbl),
        PolicyStatement [''ssm:GetParameter''] [parameter_arn ''/wordbash/ws_endpoint'']]
   \<and> filter (grants_get_parameter ''/wordbash/ws_endpoint'')
        (role_policy (task_role (task_definition (cs_web_service (ComputeStack ctx cid v tbl env)))))
     = [PolicyStatement [''ssm:GetParameter''] [parameter_arn ''/wordbash/ws_endpoint'']]
   \<and> role_policy (task_role (task_definition (cs_game_service (ComputeStack ctx cid v tbl env))))
     = [ReadWriteData (table_id tbl)]
   \<and> filter (grants_get_parameter ''/wordbash/ws_endpoint'')
        (role_policy (task_role (task_definition (cs_game_service (ComputeStack ctx cid v tbl env)))))
     = []"
  by (simp add: compute_defs parameter_arn_def)

text \<open>
  Claim C6. When two contexts differ at most in \<^verbatim>\<open>web_image_path\<close>, the game service
  (with its task definition, role, container, image, environment and scaling) and the
  game target group are the same in both runs; when they differ at most in
  \<^verbatim>\<open>game_image_path\<close>, the web service and the web target group are the same.
\<close>

theorem image_path_frame:
  "((\<forall>k. k \<noteq> ''web_image_path'' \<longrightarrow> ctx k = ctx' k) \<longrightarrow>
       cs_game_service (ComputeStack ctx cid v tbl env)
         = cs_game_service (ComputeStack ctx' cid v tbl env)
     \<and> cs_game_image (ComputeStack ctx cid v tbl env)
         = cs_game_image (ComputeStack ctx' cid v tbl env)
     \<and> cs_game_tg (ComputeStack ctx cid v tbl env)
         = cs_game_tg (ComputeStack ctx' cid v tbl env))
   \<and> ((\<forall>k. k \<noteq> ''game_image_path'' \<longrightarrow> ctx k = ctx' k) \<longrightarrow>
       cs_web_service (ComputeStack ctx cid v tbl env)
         = cs_web_service (ComputeStack ctx' cid v tbl env)
     \<and> cs_web_image (ComputeStack ctx cid v tbl env)
         = cs_web_image (ComputeStack ctx' cid v tbl env)
     \<and> cs_web_tg (ComputeStack ctx cid v tbl env)
         = cs_web_tg (ComputeStack ctx' cid v tbl env))"
proof (intro conjI impI)
  assume same: "\<forall>k. k \<noteq> ''web_image_path'' \<longrightarrow> ctx k = ctx' k"
  then have game: "ctx ''game_image_path'' = ctx' ''game_image_path''"
    by simp
  show "cs_game_service (ComputeStack ctx cid v tbl env)
          = cs_game_service (ComputeStack ctx' cid v tbl env)"
    by (simp add: compute_defs try_get_context_def game)
  show "cs_game_image (ComputeStack ctx cid v tbl env)
          = cs_game_image (ComputeStack ctx' cid v tbl env)"
    by (simp add: compute_defs try_get_context_def game)
  show "cs_game_tg (ComputeStack ctx cid v tbl env)
          = cs_game_tg (ComputeStack ctx' cid v tbl env)"
    by (simp add: compute_defs)
next
  assume same: "\<forall>k. k \<noteq> ''game_image_path'' \<longrightarrow> ctx k = ctx' k"
  then have web: "ctx ''web_image_path'' = ctx' ''web_image_path''"
    and api: "ctx ''api_base_url'' = ctx' ''api_base_url''"
    by simp_all
  show "cs_web_service (ComputeStack ctx cid v tbl env)
          = cs_web_service (ComputeStack ctx' cid v tbl env)"
    by (simp add: compute_defs try_get_context_def web api)
  show "cs_web_image (ComputeStack ctx cid v tbl env)
          = cs_web_image (ComputeStack ctx' cid v tbl env)"
    by (simp add: compute_defs try_get_context_def web)
  show "cs_web_tg (ComputeStack ctx cid v tbl env)
          = cs_web_tg (ComputeStack ctx' cid v tbl env)"
    by (simp add: compute_defs)
qed

theorem image_path_frame_witness:
  "cs_game_service (ComputeStack [''web_image_path'' \<mapsto> PStr ''apps/web''] ''WordBashComputeStack''
       (ns_vpc (NetworkStack ''N'' \<lparr> account = PNone, region = PNone \<rparr>))
       (ds_table (DataStack Map.empty ''D'' \<lparr> account = PNone, region = PNone \<rparr>))
       \<lparr> account = PNone, region = PNone \<rparr>)
     = cs_game_service (ComputeStack Map.empty ''WordBashComputeStack''
       (ns_vpc (NetworkStack ''N'' \<lparr> account = PNone, region = PNone \<rparr>))
       (ds_table (DataStack Map.empty ''D'' \<lparr> account = PNone, region = PNone \<rparr>))
       \<lparr> account = PNone, region = PNone \<rparr>)
   \<and> cs_web_service (ComputeStack [''game_image_path'' \<mapsto> PStr ''apps/game''] ''WordBashComputeStack''
       (ns_vpc (NetworkStack ''N'' \<lparr> account = PNone, region = PNone \<rparr>))
       (ds_table (DataStack Map.empty ''D'' \<lparr> account = PNone, region = PNone \<rparr>))
       \<lparr> account = PNone, region = PNone \<rparr>)
     = cs_web_service (ComputeStack Map.empty ''WordBashComputeStack''
       (ns_vpc (NetworkStack ''N'' \<lparr> account = PNone, region = PNone \<rparr>))
       (ds_table (DataStack Map.empty ''D'' \<lparr> account = PNone, region = PNone \<rparr>))
       \<lparr> account = PNone, region = PNone \<rparr>)"
proof -
  have w: "\<forall>k. k \<noteq> ''web_image_path'' \<longrightarrow>
             [''web_image_path'' \<mapsto> PStr ''apps/web''] k = (Map.empty :: cdk_context) k"
    by simp
  have g: "\<forall>k. k \<noteq> ''game_image_path'' \<longrightarrow>
             [''game_image_path'' \<mapsto> PStr ''apps/game''] k = (Map.empty :: cdk_context) k"
    by simp
  show ?thesis
    using image_path_frame [where ctx = "[''web_image_path'' \<mapsto> PStr ''apps/web'']"
                              and ctx' = "Map.empty"] w
          image_path_frame [where ctx = "[''game_image_path'' \<mapsto> PStr ''apps/game'']"
                              and ctx' = "Map.empty"] g
    by blast
qed

text \<open>
  Claim C7. For every context, one run of the app adds three stacks, exactly one network
  stack, exactly one data stack and exactly one compute stack; the compute stack is built
  from the network stack's network and the data stack's table, and the declared
  dependencies are those of the compute stack on the network stack and on the data stack.
\<close>

theorem app_three_stacks:
  "length (stacks (app ctx)) = 3
   \<and> length (filter is_network (stacks (app ctx))) = 1
   \<and> length (filter is_data (stacks (app ctx))) = 1
   \<and> length (filter is_compute (stacks (app ctx))) = 1
   \<and> stacks (app ctx)
     = (let env = \<lparr> account = try_get_context ctx ''account'',
                    region = try_get_context ctx ''region'' \<rparr>;
            n = NetworkStack ''WordBashNetworkStack'' env;
            d = DataStack ctx ''WordBashDataStack'' env
        in [Network n, Data d,
            Compute (ComputeStack ctx ''WordBashComputeStack'' (ns_vpc n) (ds_table d) env)])
   \<and> map stack_id (stacks (app ctx))
     = [''WordBashNetworkStack'', ''WordBashDataStack'', ''WordBashComputeStack'']
   \<and> dependencies (app ctx)
     = [(''WordBashComputeStack'', ''WordBashNetworkStack''),
        (''WordBashComputeStack'', ''WordBashDataStack'')]"
  by (simp add: app_def add_dependency_def Let_def NetworkStack_def DataStack_def ComputeStack_def
        split: prod.splits)

text \<open>
  Claim C9. The build directory of the web image is \<^verbatim>\<open>../web\<close> when the context holds no
  value, or a falsy one, under \<^verbatim>\<open>web_image_path\<close>, and is that value itself when it is
  truthy; likewise for the game image with \<^verbatim>\<open>game_image_path\<close> and \<^verbatim>\<open>../game\<close>. Each
  service's container runs the image built from that directory.
\<close>

theorem image_path_default:
  "(ctx ''web_image_path'' = None \<longrightarrow>
      directory (cs_web_image (ComputeStack ctx cid v tbl env)) = PStr ''../web'')
   \<and> (\<forall>x. ctx ''web_image_path'' = Some x \<longrightarrow>
      directory (cs_web_image (ComputeStack ctx cid v tbl env))
        = (if truthy x then x else PStr ''../web''))
   \<and> (ctx ''game_image_path'' = None \<longrightarrow>
      directory (cs_game_image (ComputeStack ctx cid v tbl env)) = PStr ''../game'')
   \<and> (\<forall>x. ctx ''game_image_path'' = Some x \<longrightarrow>
      directory (cs_game_image (ComputeStack ctx cid v tbl env))
        = (if truthy x then x else PStr ''../game''))
   \<and> map container_image (containers (task_definition (cs_web_service (ComputeStack ctx cid v tbl env))))
     = [cs_web_image (ComputeStack ctx cid v tbl env)]
   \<and> map container_image (containers (task_definition (cs_game_service (ComputeStack ctx cid v tbl env))))
     = [cs_game_image (ComputeStack ctx cid v tbl env)]"
  by (simp add: compute_defs try_get_context_def py_or_def)

theorem image_path_default_witness:
  "directory (cs_web_image (ComputeStack [''game_image_path'' \<mapsto> PStr ''apps/game'', ''web_image_path'' \<mapsto> PStr '''']
       ''WordBashComputeStack''
       (ns_vpc (NetworkStack ''N'' \<lparr> account = PNone, region = PNone \<rparr>))
       (ds_table (DataStack Map.empty ''D'' \<lparr> account = PNone, region = PNone \<rparr>))
       \<lparr> account = PNone, region = PNone \<rparr>)) = PStr ''../web''
   \<and> directory (cs_game_image (ComputeStack [''game_image_path'' \<mapsto> PStr ''apps/game'', ''web_image_path'' \<mapsto> PStr '''']
       ''WordBashComputeStack''
       (ns_vpc (NetworkStack ''N'' \<lparr> account = PNone, region = PNone \<rparr>))
       (ds_table (DataStack Map.empty ''D'' \<lparr> account = PNone, region = PNone \<rparr>))
       \<lparr> account = PNone, region = PNone \<rparr>)) = PStr ''apps/game''"
  using image_path_default
          [where ctx = "[''game_image_path'' \<mapsto> PStr ''apps/game'', ''web_image_path'' \<mapsto> PStr '''']"
             and cid = "''WordBashComputeStack''"
             and v = "ns_vpc (NetworkStack ''N'' \<lparr> account = PNone, region = PNone \<rparr>)"
             and tbl = "ds_table (DataStack Map.empty ''D'' \<lparr> account = PNone, region = PNone \<rparr>)"
             and env = "\<lparr> account = PNone, region = PNone \<rparr>"]
  by simp

text \<open>
  Claim C10. The service security group has exactly one ingress rule, TCP port 8080 from
  the load balancer's security group; so every ingress rule of it is on TCP port 8080
  and none admits any IPv4 address. It is the only security group of the web service
  and of the game service, and the security group it admits is the one the load
  balancer is declared with.
\<close>

theorem service_ingress_from_alb_only:
  "ingress_rules (cs_service_sg (ComputeStack ctx cid v tbl env))
     = [\<lparr> ingress_peer = SecurityGroupPeer (sg_id (cs_alb_sg (ComputeStack ctx cid v tbl env))),
          ingress_port = Tcp 8080 \<rparr>]
   \<and> (\<forall>r \<in> set (ingress_rules (cs_service_sg (ComputeStack ctx cid v tbl env))).
        ingress_port r = Tcp 8080
      \<and> ingress_peer r = SecurityGroupPeer (sg_id (cs_alb_sg (ComputeStack ctx cid v tbl env)))
      \<and> ingress_peer r \<noteq> AnyIpv4)
   \<and> security_groups (cs_web_service (ComputeStack ctx cid v tbl env))
     = [cs_service_sg (ComputeStack ctx cid v tbl env)]
   \<and> security_groups (cs_game_service (ComputeStack ctx cid v tbl env))
     = [cs_service_sg (ComputeStack ctx cid v tbl env)]
   \<and> alb_security_group (cs_alb (ComputeStack ctx cid v tbl env))
     = cs_alb_sg (ComputeStack ctx cid v tbl env)
   \<and> sg_id (cs_alb_sg (ComputeStack ctx cid v tbl env))
     \<noteq> sg_id (cs_service_sg (ComputeStack ctx cid v tbl env))"
  by (simp add: compute_defs)

theorem service_ingress_from_alb_only_witness:
  "ingress_rules (cs_service_sg (ComputeStack Map.empty ''WordBashComputeStack''
       (ns_vpc (NetworkStack ''N'' \<lparr> account = PNone, region = PNone \<rparr>))
       (ds_table (DataStack Map.empty ''D'' \<lparr> account = PNone, region = PNone \<rparr>))
       \<lparr> account = PNone, region = PNone \<rparr>))
     = [\<lparr> ingress_peer = SecurityGroupPeer ''AlbSecurityGroup'', ingress_port = Tcp 8080 \<rparr>]"
  using service_ingress_from_alb_only
          [where ctx = "Map.empty"
             and cid = "''WordBashComputeStack''"
             and v = "ns_vpc (NetworkStack ''N'' \<lparr> account = PNone, region = PNone \<rparr>)"
             and tbl = "ds_table (DataStack Map.empty ''D'' \<lparr> account = PNone, region = PNone \<rparr>)"
             and env = "\<lparr> account = PNone, region = PNone \<rparr>"]
  by (simp add: compute_defs)

end
